theory Spec2Isabelle
  imports Main
begin

section \<open>Values, configurations and errors\<close>

text \<open>
  Python values that travel through the distributor manager: configuration values,
  the \<open>auto_publish\<close> flag, scratchpad contents, validation messages and exception
  arguments. \<open>PNone\<close> is Python's \<open>None\<close>, the "unset" convention of the manager.
\<close>

datatype pyval = PNone | PBool bool | PInt int | PStr string | PList "pyval list"

text \<open>A configuration is a Python dict from string keys to values.\<close>

type_synonym config = "string \<rightharpoonup> pyval"

text \<open>
  An exception raised by plugin code. The manager tells one class from the others,
  in the \<open>except MissingResource\<close> of \<open>add_distributor\<close>; so an exception is
  either a \<open>MissingResource\<close>, with its resources and its \<open>args\<close>, or an
  exception of any other class, with its \<open>args\<close>.
\<close>

datatype exn =
    Exception "pyval list"
  | MissingResourceRaised "(string \<times> string) list" "pyval list"

text \<open>
  What a call of the manager can raise. \<open>MissingResource\<close> carries its keyword
  arguments (the \<open>resources\<close> dict) in the order written, \<open>InvalidValue\<close> the
  property names, \<open>PulpDataException\<close> its argument. \<open>PluginException\<close> is an
  exception of the plugin that leaves the manager as it was raised, \<open>PluginNotFound\<close>
  the failure of the plugin loader's lookup, \<open>TypeError\<close> Python's own.
\<close>

datatype error =
    MissingResource "(string \<times> string) list"
  | InvalidValue "string list"
  | PulpDataException pyval
  | PulpExecutionException
  | PluginException exn
  | PluginNotFound string
  | TypeError

text \<open>
  An exception of the plugin that no \<open>except\<close> clause catches leaves the manager
  with its class: a \<open>MissingResource\<close> of the plugin is a \<open>MissingResource\<close> for
  whoever catches it.
\<close>

definition propagate :: "exn \<Rightarrow> error" where
  "propagate e =
     (case e of
        Exception a \<Rightarrow> PluginException e
      | MissingResourceRaised res a \<Rightarrow> MissingResource res)"

text \<open>\<open>e.args\<close>\<close>

definition exn_args :: "exn \<Rightarrow> pyval list" where
  "exn_args e = (case e of Exception a \<Rightarrow> a | MissingResourceRaised res a \<Rightarrow> a)"

section \<open>Transfer objects and plugins\<close>

text \<open>The \<open>Repository\<close> transfer object of \<open>pulp/plugins/model.py\<close>.\<close>

record Repository =
  Repository_id :: string
  display_name :: "string option"
  description :: "string option"
  Repository_notes :: "config option"
  working_dir :: "string option"
  content_unit_counts :: "string \<rightharpoonup> int"
  last_unit_added :: "int option"
  last_unit_removed :: "int option"

definition Repository_init ::
  "string \<Rightarrow> string option \<Rightarrow> string option \<Rightarrow> config option \<Rightarrow> string option \<Rightarrow>
   (string \<rightharpoonup> int) option \<Rightarrow> int option \<Rightarrow> int option \<Rightarrow> Repository" where
  "Repository_init ident dn de no wd cuc lua lur =
     \<lparr>Repository_id = ident, display_name = dn, description = de, Repository_notes = no,
      working_dir = wd,
      content_unit_counts = (case cuc of None \<Rightarrow> Map.empty | Some c \<Rightarrow> c),
      last_unit_added = lua, last_unit_removed = lur\<rparr>"

text \<open>
  \<open>PluginCallConfiguration(plugin_config, repo_plugin_config)\<close>: the plugin's static
  configuration and the repository's configuration for the plugin, which may be \<open>None\<close>.
\<close>

record PluginCallConfiguration =
  call_plugin_config :: config
  call_repo_plugin_config :: "config option"

text \<open>
  What \<open>validate_config\<close> can do: raise, return a bool (the legacy shape), or return
  the pair \<open>(valid, message)\<close>.
\<close>

datatype validate_result = VRaise exn | VBool bool | VTuple bool pyval

text \<open>
  A distributor plugin instance. The callbacks are the plugin's own code; the manager
  only calls them. \<open>distributor_added\<close> and \<open>distributor_removed\<close> return
  \<open>None\<close> when they return normally and \<open>Some e\<close> when they raise \<open>e\<close>. The third
  argument of \<open>validate_config\<close> is the \<open>RepoConfigConduit\<close>, which is built from
  the distributor type id alone.
\<close>

record distributor =
  validate_config :: "Repository \<Rightarrow> PluginCallConfiguration \<Rightarrow> string \<Rightarrow> validate_result"
  distributor_added :: "Repository \<Rightarrow> PluginCallConfiguration \<Rightarrow> exn option"
  distributor_removed :: "Repository \<Rightarrow> PluginCallConfiguration \<Rightarrow> exn option"

section \<open>The database\<close>

text \<open>A document of the \<open>Repo\<close> collection; the manager looks it up by its \<open>id\<close>.\<close>

record Repo =
  Repo_id :: string
  Repo_display_name :: "string option"
  Repo_description :: "string option"
  Repo_notes :: "config option"

text \<open>
  A document of the \<open>RepoDistributor\<close> collection, one field per key the manager
  reads or writes: \<open>_id\<close>, \<open>repo_id\<close>, \<open>id\<close>, \<open>distributor_type_id\<close>,
  \<open>config\<close>, \<open>auto_publish\<close>, \<open>scratchpad\<close> and \<open>scheduled_publishes\<close>.
  \<open>doc_config\<close> is \<open>None\<close> for a stored Python \<open>None\<close>. \<open>doc_scratchpad\<close> is
  \<open>None\<close> when the document has no \<open>scratchpad\<close> key at all (as after a projection)
  and \<open>Some v\<close> when the key is present with value \<open>v\<close>.
\<close>

record RepoDistributor =
  oid :: nat
  doc_repo_id :: string
  doc_id :: string
  doc_distributor_type_id :: string
  doc_config :: "config option"
  doc_auto_publish :: pyval
  doc_scratchpad :: "pyval option"
  doc_scheduled_publishes :: "string list"

text \<open>
  The persistent state: the two collections, the schedule entries held by the
  scheduling collaborator as triples (repo id, distributor id, schedule id), and the
  source of fresh \<open>_id\<close> values.
\<close>

record db =
  repos :: "Repo list"
  distributors :: "RepoDistributor list"
  schedules :: "(string \<times> string \<times> string) list"
  next_oid :: nat

text \<open>
  The collaborators of the manager that live in other modules: the plugin loader
  (\<open>plugin_api\<close>), \<open>common_utils\<close> and \<open>uuid.uuid4\<close>.
\<close>

record env =
  is_valid_distributor :: "string \<Rightarrow> bool"
  get_distributor_by_id :: "string \<Rightarrow> (distributor \<times> config) option"
  to_transfer_repo :: "Repo \<Rightarrow> Repository"
  get_working_directory :: string
  uuid4 :: string

subsection \<open>Collection operations\<close>

text \<open>\<open>Repo.get_collection().find_one({'id': repo_id})\<close>\<close>

definition find_one_repo :: "Repo list \<Rightarrow> string \<Rightarrow> Repo option" where
  "find_one_repo rs r = find (\<lambda>x. Repo_id x = r) rs"

text \<open>\<open>RepoDistributor.get_collection().find_one({'repo_id': repo_id, 'id': distributor_id})\<close>\<close>

definition find_one_distributor :: "RepoDistributor list \<Rightarrow> string \<Rightarrow> string \<Rightarrow> RepoDistributor option" where
  "find_one_distributor ds r i = find (\<lambda>d. doc_repo_id d = r \<and> doc_id d = i) ds"

text \<open>
  \<open>collection.save(doc, safe=True)\<close>: the document replaces the stored one with the same
  \<open>_id\<close>, and is inserted when there is none.
\<close>

definition save_doc :: "RepoDistributor list \<Rightarrow> RepoDistributor \<Rightarrow> RepoDistributor list" where
  "save_doc ds d =
     (if list_ex (\<lambda>x. oid x = oid d) ds
      then map (\<lambda>x. if oid x = oid d then d else x) ds
      else ds @ [d])"

text \<open>\<open>collection.remove({'_id': k}, safe=True)\<close>\<close>

definition remove_doc :: "RepoDistributor list \<Rightarrow> nat \<Rightarrow> RepoDistributor list" where
  "remove_doc ds k = filter (\<lambda>x. oid x \<noteq> k) ds"

text \<open>
  Modelled from the spec: the \<open>RepoDistributor\<close> document constructor, whose class is
  in \<open>pulp.server.db.model.repository\<close>. A new binding holds the owner id, the
  binding id, the plugin type id, the configuration and the \<open>auto_publish\<close> flag it is
  given, an unset scratchpad, no scheduled publishes, and a fresh \<open>_id\<close>.
\<close>

definition RepoDistributor_init ::
  "nat \<Rightarrow> string \<Rightarrow> string \<Rightarrow> string \<Rightarrow> config option \<Rightarrow> pyval \<Rightarrow> RepoDistributor" where
  "RepoDistributor_init k r i t c a =
     \<lparr>oid = k, doc_repo_id = r, doc_id = i, doc_distributor_type_id = t, doc_config = c,
      doc_auto_publish = a, doc_scratchpad = Some PNone, doc_scheduled_publishes = []\<rparr>"

text \<open>
  Modelled from the spec: \<open>RepoPublishScheduleManager().delete_by_distributor_id\<close>, the
  scheduling collaborator's "delete all schedules for (owner, binding)".
\<close>

definition delete_by_distributor_id :: "db \<Rightarrow> string \<Rightarrow> string \<Rightarrow> db" where
  "delete_by_distributor_id s r i =
     s\<lparr>schedules := filter (\<lambda>(r', i', _). \<not> (r' = r \<and> i' = i)) (schedules s)\<rparr>"

section \<open>The distributor manager\<close>

text \<open>
  \<open>_DISTRIBUTOR_ID_REGEX = re.compile(r'^[\-_A-Za-z0-9]+$')\<close>, used with \<open>match\<close>:
  one or more characters of the class, up to the end of the string or to a single
  newline that ends it (Python's \<open>$\<close>).
\<close>

definition is_distributor_id_char :: "char \<Rightarrow> bool" where
  "is_distributor_id_char c =
     (c \<in> set ''-_ABCDEFGHIJKLMNOPQRSTUVWXYZabcdefghijklmnopqrstuvwxyz0123456789'')"

definition is_distributor_id_valid :: "string \<Rightarrow> bool" where
  "is_distributor_id_valid distributor_id =
     (let body = (if distributor_id \<noteq> [] \<and> last distributor_id = CHR 0x0A
                  then butlast distributor_id else distributor_id)
      in body \<noteq> [] \<and> list_all is_distributor_id_char body)"

text \<open>\<open>get_distributor\<close>: the collection of distributors is the only one read.\<close>

definition get_distributor :: "db \<Rightarrow> string \<Rightarrow> string \<Rightarrow> error + RepoDistributor" where
  "get_distributor s repo_id distributor_id =
     (case find_one_distributor (distributors s) repo_id distributor_id of
        None \<Rightarrow> Inl (MissingResource [(''distributor'', distributor_id)])
      | Some distributor \<Rightarrow> Inr distributor)"

definition get_distributors :: "db \<Rightarrow> string \<Rightarrow> error + RepoDistributor list" where
  "get_distributors s repo_id =
     (case find_one_repo (repos s) repo_id of
        None \<Rightarrow> Inl (MissingResource [(''repository'', repo_id)])
      | Some repo \<Rightarrow> Inr (filter (\<lambda>d. doc_repo_id d = repo_id) (distributors s)))"

text \<open>
  \<open>find_by_repo_list\<close>: the query \<open>{'repo_id': {'$in': repo_id_list}}\<close> with the
  projection \<open>{'scratchpad': 0}\<close>, which drops that key from every returned document.
\<close>

definition find_by_repo_list :: "db \<Rightarrow> string list \<Rightarrow> RepoDistributor list" where
  "find_by_repo_list s repo_id_list =
     map (\<lambda>d. d\<lparr>doc_scratchpad := None\<rparr>)
       (filter (\<lambda>d. doc_repo_id d \<in> set repo_id_list) (distributors s))"

text \<open>
  \<open>remove_distributor\<close>. The state is returned with the error as well: the schedules
  are deleted before the plugin is called, and stay deleted when it raises. Nothing
  catches an exception of \<open>distributor_removed\<close>: it leaves with its class, before
  the document is removed.
\<close>

definition remove_distributor :: "env \<Rightarrow> db \<Rightarrow> string \<Rightarrow> string \<Rightarrow> (error + unit) \<times> db" where
  "remove_distributor E s repo_id distributor_id =
     (case find_one_repo (repos s) repo_id of
        None \<Rightarrow> (Inl (MissingResource [(''repository'', repo_id)]), s)
      | Some repo \<Rightarrow>
        (case find_one_distributor (distributors s) repo_id distributor_id of
           None \<Rightarrow> (Inl (MissingResource [(''distributor'', distributor_id)]), s)
         | Some repo_distributor \<Rightarrow>
           (let s1 = delete_by_distributor_id s repo_id (doc_id repo_distributor);
                distributor_type_id = doc_distributor_type_id repo_distributor
            in case get_distributor_by_id E distributor_type_id of
                 None \<Rightarrow> (Inl (PluginNotFound distributor_type_id), s1)
               | Some (distributor_instance, plugin_config) \<Rightarrow>
                 (let call_config = \<lparr>call_plugin_config = plugin_config,
                                     call_repo_plugin_config = doc_config repo_distributor\<rparr>;
                      transfer_repo = (to_transfer_repo E repo)
                                        \<lparr>working_dir := Some (get_working_directory E)\<rparr>
                  in case distributor_removed distributor_instance transfer_repo call_config of
                       Some e \<Rightarrow> (Inl (propagate e), s1)
                     | None \<Rightarrow>
                       (Inr (), s1\<lparr>distributors :=
                                    remove_doc (distributors s1) (oid repo_distributor)\<rparr>)))))"

text \<open>
  The cleaning of \<open>add_distributor\<close>:
  \<open>dict([(k, v) for k, v in repo_plugin_config.items() if v is not None])\<close>.
\<close>

definition clean_config :: "config \<Rightarrow> config" where
  "clean_config repo_plugin_config =
     repo_plugin_config |` {k. repo_plugin_config k \<noteq> Some PNone}"

text \<open>
  \<open>add_distributor\<close>. \<open>distributor_id = None\<close> asks for a generated id. An exception
  of \<open>validate_config\<close> is not caught here. The \<open>except MissingResource\<close> around
  the removal of the old distributor catches every \<open>MissingResource\<close> that leaves
  \<open>remove_distributor\<close>, the plugin's as well. An exception of
  \<open>distributor_added\<close> becomes a \<open>PulpExecutionException\<close>, raised before the
  document is built and saved.
\<close>

definition add_distributor ::
  "env \<Rightarrow> db \<Rightarrow> string \<Rightarrow> string \<Rightarrow> config option \<Rightarrow> pyval \<Rightarrow> string option \<Rightarrow>
   (error + RepoDistributor) \<times> db" where
  "add_distributor E s repo_id distributor_type_id repo_plugin_config auto_publish distributor_id =
     (case find_one_repo (repos s) repo_id of
        None \<Rightarrow> (Inl (MissingResource [(''repository'', repo_id)]), s)
      | Some repo \<Rightarrow>
        if \<not> is_valid_distributor E distributor_type_id
        then (Inl (InvalidValue [''distributor_type_id'']), s)
        else if (case distributor_id of None \<Rightarrow> False
                 | Some i \<Rightarrow> \<not> is_distributor_id_valid i)
        then (Inl (InvalidValue [''distributor_id'']), s)
        else
          (let distributor_id = (case distributor_id of None \<Rightarrow> uuid4 E | Some i \<Rightarrow> i)
           in case get_distributor_by_id E distributor_type_id of
                None \<Rightarrow> (Inl (PluginNotFound distributor_type_id), s)
              | Some (distributor_instance, plugin_config) \<Rightarrow>
                (let clean = map_option clean_config repo_plugin_config;
                     call_config = \<lparr>call_plugin_config = plugin_config,
                                    call_repo_plugin_config = clean\<rparr>;
                     transfer_repo = to_transfer_repo E repo
                 in case (case validate_config distributor_instance transfer_repo call_config
                                 distributor_type_id of
                            VRaise e \<Rightarrow> Inl e
                          | VBool b \<Rightarrow> Inr (b, PNone)
                          | VTuple b m \<Rightarrow> Inr (b, m)) of
                      Inl e \<Rightarrow> (Inl (propagate e), s)
                    | Inr (valid_config, message) \<Rightarrow>
                      if \<not> valid_config then (Inl (PulpDataException message), s)
                      else
                        (case (case remove_distributor E s repo_id distributor_id of
                                 (Inl (MissingResource res), s1) \<Rightarrow> Inr s1
                               | (Inl err, s1) \<Rightarrow> Inl (err, s1)
                               | (Inr u, s1) \<Rightarrow> Inr s1) of
                           Inl (err, s1) \<Rightarrow> (Inl err, s1)
                         | Inr s1 \<Rightarrow>
                           (case distributor_added distributor_instance transfer_repo
                                   call_config of
                              Some e \<Rightarrow> (Inl PulpExecutionException, s1)
                            | None \<Rightarrow>
                              (let distributor =
                                     RepoDistributor_init (next_oid s1) repo_id distributor_id
                                       distributor_type_id clean auto_publish
                               in (Inr distributor,
                                   s1\<lparr>distributors := save_doc (distributors s1) distributor,
                                      next_oid := Suc (next_oid s1)\<rparr>)))))))"

text \<open>
  \<open>update_distributor_config\<close>. The caller's \<open>distributor_config\<close> dict is
  mutated by the call, so it is returned next to the result and the state. The keys
  mapped to \<open>None\<close> are popped from the merged configuration and from the delta;
  what is left of the delta is then merged in with \<open>dict.update\<close>.
\<close>

definition update_distributor_config ::
  "env \<Rightarrow> db \<Rightarrow> string \<Rightarrow> string \<Rightarrow> config \<Rightarrow> pyval \<Rightarrow>
   (error + RepoDistributor) \<times> db \<times> config" where
  "update_distributor_config E s repo_id distributor_id distributor_config auto_publish =
     (case find_one_repo (repos s) repo_id of
        None \<Rightarrow> (Inl (MissingResource [(''repository'', repo_id)]), s, distributor_config)
      | Some repo \<Rightarrow>
        (case find_one_distributor (distributors s) repo_id distributor_id of
           None \<Rightarrow> (Inl (MissingResource [(''distributor'', distributor_id)]), s,
                      distributor_config)
         | Some repo_distributor \<Rightarrow>
           (let distributor_type_id = doc_distributor_type_id repo_distributor
            in case get_distributor_by_id E distributor_type_id of
                 None \<Rightarrow> (Inl (PluginNotFound distributor_type_id), s, distributor_config)
               | Some (distributor_instance, plugin_config) \<Rightarrow>
                 (case doc_config repo_distributor of
                    None \<Rightarrow> (Inl TypeError, s, distributor_config)
                  | Some stored \<Rightarrow>
                    (let unset_property_names = {k. distributor_config k = Some PNone};
                         merged_config = stored |` (- unset_property_names);
                         distributor_config = distributor_config |` (- unset_property_names);
                         merged_config = merged_config ++ distributor_config;
                         call_config = \<lparr>call_plugin_config = plugin_config,
                                        call_repo_plugin_config = Some merged_config\<rparr>;
                         transfer_repo = (to_transfer_repo E repo)
                                           \<lparr>working_dir := Some (get_working_directory E)\<rparr>
                     in case (case validate_config distributor_instance transfer_repo call_config
                                     distributor_type_id of
                                VRaise e \<Rightarrow> Inl (exn_args e)
                              | VBool b \<Rightarrow> Inr (b, PNone)
                              | VTuple b m \<Rightarrow> Inr (b, m)) of
                          Inl args \<Rightarrow>
                            (Inl (PulpDataException (PList args)), s, distributor_config)
                        | Inr (valid_config, message) \<Rightarrow>
                          if \<not> valid_config
                          then (Inl (PulpDataException message), s, distributor_config)
                          else
                            (case (case auto_publish of
                                     PNone \<Rightarrow> Inr repo_distributor
                                   | PBool b \<Rightarrow>
                                       Inr (repo_distributor\<lparr>doc_auto_publish := auto_publish\<rparr>)
                                   | other \<Rightarrow> Inl (InvalidValue [''auto_publish''])) of
                               Inl err \<Rightarrow> (Inl err, s, distributor_config)
                             | Inr repo_distributor \<Rightarrow>
                               (let repo_distributor =
                                      repo_distributor\<lparr>doc_config := Some merged_config\<rparr>
                                in (Inr repo_distributor,
                                    s\<lparr>distributors :=
                                         save_doc (distributors s) repo_distributor\<rparr>,
                                    distributor_config))))))))"

text \<open>The scratchpad accessors: a missing distributor is not an error.\<close>

definition get_distributor_scratchpad :: "db \<Rightarrow> string \<Rightarrow> string \<Rightarrow> pyval" where
  "get_distributor_scratchpad s repo_id distributor_id =
     (case find_one_distributor (distributors s) repo_id distributor_id of
        None \<Rightarrow> PNone
      | Some repo_distributor \<Rightarrow>
        (case doc_scratchpad repo_distributor of None \<Rightarrow> PNone | Some v \<Rightarrow> v))"

definition set_distributor_scratchpad :: "db \<Rightarrow> string \<Rightarrow> string \<Rightarrow> pyval \<Rightarrow> db" where
  "set_distributor_scratchpad s repo_id distributor_id contents =
     (case find_one_distributor (distributors s) repo_id distributor_id of
        None \<Rightarrow> s
      | Some repo_distributor \<Rightarrow>
        s\<lparr>distributors :=
            save_doc (distributors s) (repo_distributor\<lparr>doc_scratchpad := Some contents\<rparr>)\<rparr>)"

section \<open>The worker watcher\<close>

text \<open>A document of the worker collection: the worker's name is its \<open>_id\<close>.\<close>

record Worker =
  Worker_name :: string
  last_heartbeat :: int

text \<open>A heartbeat event as the handler reads it, its timestamp in seconds.\<close>

record event =
  event_timestamp :: int
  event_type :: string
  hostname :: string

text \<open>
  \<open>find_and_modify(query={'_id': worker_name}, update={'$set': {'last_heartbeat': t}})\<close>:
  the first document with that \<open>_id\<close> gets the new value, whatever the old one was.
\<close>

fun find_and_modify :: "Worker list \<Rightarrow> string \<Rightarrow> int \<Rightarrow> Worker list" where
  "find_and_modify [] worker_name t = []"
| "find_and_modify (w # ws) worker_name t =
     (if Worker_name w = worker_name then w\<lparr>last_heartbeat := t\<rparr> # ws
      else w # find_and_modify ws worker_name t)"

text \<open>
  Modelled from the spec: \<open>handle_worker_heartbeat\<close> of
  \<open>pulp.server.async.worker_watcher\<close>, of which only the unit test is among the
  sources. The worker is looked up by identity; when absent a record is created with
  \<open>last_heartbeat = timestamp\<close>; when present \<open>last_heartbeat\<close> is set to the
  timestamp by a single update keyed by identity (the \<open>$set\<close> that the test asserts).
\<close>

definition handle_worker_heartbeat :: "Worker list \<Rightarrow> event \<Rightarrow> Worker list" where
  "handle_worker_heartbeat ws ev =
     (let worker_name = hostname ev;
          timestamp = event_timestamp ev;
          worker_list = filter (\<lambda>w. Worker_name w = worker_name) ws
      in if worker_list = []
         then ws @ [\<lparr>Worker_name = worker_name, last_heartbeat = timestamp\<rparr>]
         else find_and_modify ws worker_name timestamp)"

text \<open>The heartbeat on record for a worker, if the worker is known.\<close>

definition recorded_heartbeat :: "Worker list \<Rightarrow> string \<Rightarrow> int option" where
  "recorded_heartbeat ws worker_name =
     map_option last_heartbeat (find (\<lambda>w. Worker_name w = worker_name) ws)"

section \<open>Test fixtures\<close>

text \<open>
  The mock plugin of the unit tests: it accepts every configuration and its callbacks
  return normally. The tests change one callback at a time.
\<close>

definition mock_distributor :: distributor where
  "mock_distributor =
     \<lparr>validate_config = (\<lambda>r c k. VTuple True PNone),
      distributor_added = (\<lambda>r c. None),
      distributor_removed = (\<lambda>r c. None)\<rparr>"

definition mock_env :: "distributor \<Rightarrow> env" where
  "mock_env inst =
     \<lparr>is_valid_distributor = (\<lambda>t. t = ''mock-distributor''),
      get_distributor_by_id =
        (\<lambda>t. if t = ''mock-distributor'' then Some (inst, Map.empty) else None),
      to_transfer_repo =
        (\<lambda>r. Repository_init (Repo_id r) (Repo_display_name r) (Repo_description r)
               (Repo_notes r) None None None None),
      get_working_directory = ''/var/cache/pulp/mock_worker/mock_task_id'',
      uuid4 = ''0b2f4c1e-7d3a-4e59-9c46-a1d8e5f60b72''\<rparr>"

definition test_repo :: Repo where
  "test_repo =
     \<lparr>Repo_id = ''test-repo'', Repo_display_name = None, Repo_description = None,
      Repo_notes = None\<rparr>"

text \<open>A database with the repository and no distributor.\<close>

definition empty_db :: db where
  "empty_db = \<lparr>repos = [test_repo], distributors = [], schedules = [], next_oid = 0\<rparr>"

text \<open>
  A database where distributor \<open>d1\<close> is bound to the repository with configuration
  \<open>{a: 'a', b: 'b', c: 'c'}\<close>, a scratchpad value and one publish schedule.
\<close>

definition d1_doc :: RepoDistributor where
  "d1_doc =
     \<lparr>oid = 0, doc_repo_id = ''test-repo'', doc_id = ''d1'',
      doc_distributor_type_id = ''mock-distributor'',
      doc_config = Some [''a'' \<mapsto> PStr ''a'', ''b'' \<mapsto> PStr ''b'', ''c'' \<mapsto> PStr ''c''],
      doc_auto_publish = PBool False, doc_scratchpad = Some (PStr ''state''),
      doc_scheduled_publishes = [''s1'']\<rparr>"

definition bound_db :: db where
  "bound_db =
     \<lparr>repos = [test_repo], distributors = [d1_doc],
      schedules = [(''test-repo'', ''d1'', ''s1'')], next_oid = 1\<rparr>"

text \<open>The variants of the mock plugin that the tests install.\<close>

definition failing_added :: distributor where
  "failing_added = mock_distributor\<lparr>distributor_added := (\<lambda>r c. Some (Exception []))\<rparr>"

definition rejecting_validate :: distributor where
  "rejecting_validate = mock_distributor\<lparr>validate_config := (\<lambda>r c k. VTuple False (PStr ''foo''))\<rparr>"

definition failing_validate :: distributor where
  "failing_validate = mock_distributor\<lparr>validate_config := (\<lambda>r c k. VRaise (Exception [PStr ''foo'']))\<rparr>"

definition failing_removed_and_added :: distributor where
  "failing_removed_and_added =
     mock_distributor
       \<lparr>distributor_added := (\<lambda>r c. Some (Exception [])),
        distributor_removed := (\<lambda>r c. Some (MissingResourceRaised [(''unit'', ''u1'')] []))\<rparr>"

text \<open>A database where distributor \<open>d0\<close> was added with no configuration.\<close>

definition d0_doc :: RepoDistributor where
  "d0_doc =
     \<lparr>oid = 0, doc_repo_id = ''test-repo'', doc_id = ''d0'',
      doc_distributor_type_id = ''mock-distributor'', doc_config = None,
      doc_auto_publish = PBool False, doc_scratchpad = Some PNone,
      doc_scheduled_publishes = []\<rparr>"

definition unconfigured_db :: db where
  "unconfigured_db =
     \<lparr>repos = [test_repo], distributors = [d0_doc], schedules = [], next_oid = 1\<rparr>"

definition failing_removed :: distributor where
  "failing_removed = mock_distributor\<lparr>distributor_removed := (\<lambda>r c. Some (Exception [PStr ''boom'']))\<rparr>"

section \<open>Facts about the collections\<close>

lemma find_save_doc:
  "find P ds = Some rd \<Longrightarrow> P d \<Longrightarrow> oid d = oid rd \<Longrightarrow> find P (save_doc ds d) = Some d"
proof -
  assume f: "find P ds = Some rd" and p: "P d" and o: "oid d = oid rd"
  have step: "find P (map (\<lambda>x. if oid x = oid d then d else x) xs) = Some d"
    if "find P xs = Some rd" for xs
    using that
  proof (induction xs)
    case Nil
    then show ?case by simp
  next
    case (Cons x xs)
    then show ?case using p o by (auto split: if_splits)
  qed
  from f have "rd \<in> set ds" by (auto simp: find_Some_iff)
  then have "list_ex (\<lambda>x. oid x = oid d) ds" using o by (auto simp: list_ex_iff)
  then show ?thesis using step [OF f] by (simp add: save_doc_def)
qed

lemma save_doc_member: "d \<in> set (save_doc ds d)"
  by (auto simp: save_doc_def list_ex_iff)

lemma clean_config_no_None: "clean_config c k \<noteq> Some PNone"
  by (simp add: clean_config_def restrict_map_def)

lemma clean_config_idem: "clean_config (clean_config c) = clean_config c"
  by (auto simp: clean_config_def restrict_map_def fun_eq_iff)

lemma merged_apply:
  "((stored |` (- {k. delta k = Some PNone})) ++ (delta |` (- {k. delta k = Some PNone}))) k =
     (case delta k of None \<Rightarrow> stored k | Some PNone \<Rightarrow> None | Some v \<Rightarrow> Some v)"
  by (simp add: map_add_def restrict_map_def split: option.splits pyval.splits)

lemma merged_pointwise:
  "(\<forall>k. m k = (case delta k of None \<Rightarrow> stored k | Some PNone \<Rightarrow> None | Some v \<Rightarrow> Some v)) \<longleftrightarrow>
   m = (stored |` (- {k. delta k = Some PNone})) ++ (delta |` (- {k. delta k = Some PNone}))"
  unfolding fun_eq_iff merged_apply ..

lemma stripped_apply:
  "(delta |` (- {k. delta k = Some PNone})) k = (case delta k of Some PNone \<Rightarrow> None | v \<Rightarrow> v)"
  by (simp add: restrict_map_def split: option.splits pyval.splits)

lemma stripped_pointwise:
  "(\<forall>k. d' k = (case delta k of Some PNone \<Rightarrow> None | v \<Rightarrow> v)) \<longleftrightarrow>
   d' = delta |` (- {k. delta k = Some PNone})"
  unfolding fun_eq_iff stripped_apply ..

lemma find_append_unmatched: "find P xs = None \<Longrightarrow> find P (xs @ ys) = find P ys"
  by (induction xs) (auto split: if_splits)

section \<open>Reading bindings\<close>

text \<open>
  C10: \<open>get_distributor\<close> never consults the repository collection. Its result is
  the same whatever that collection holds; with no matching distributor document it
  fails with a \<open>MissingResource\<close> that names the distributor only, and a matching
  document is returned even when the repository is gone.
\<close>

theorem get_distributor_never_reads_repos:
  "get_distributor (s\<lparr>repos := rs\<rparr>) repo_id distributor_id = get_distributor s repo_id distributor_id \<and>
   (find_one_distributor (distributors s) repo_id distributor_id = None \<longrightarrow>
      get_distributor (s\<lparr>repos := rs\<rparr>) repo_id distributor_id =
        Inl (MissingResource [(''distributor'', distributor_id)])) \<and>
   (\<forall>d. find_one_distributor (distributors s) repo_id distributor_id = Some d \<longrightarrow>
      get_distributor (s\<lparr>repos := rs\<rparr>) repo_id distributor_id = Inr d)"
  by (simp add: get_distributor_def)

theorem get_distributor_never_reads_repos_witness:
  "find_one_distributor (distributors bound_db) ''test-repo'' ''nope'' = None \<and>
   get_distributor (bound_db\<lparr>repos := []\<rparr>) ''test-repo'' ''nope'' =
     Inl (MissingResource [(''distributor'', ''nope'')]) \<and>
   get_distributor bound_db ''test-repo'' ''nope'' =
     Inl (MissingResource [(''distributor'', ''nope'')]) \<and>
   find_one_distributor (distributors bound_db) ''test-repo'' ''d1'' = Some d1_doc \<and>
   get_distributor (bound_db\<lparr>repos := []\<rparr>) ''test-repo'' ''d1'' = Inr d1_doc"
proof -
  have h1: "find_one_distributor (distributors bound_db) ''test-repo'' ''nope'' = None"
    by (simp add: find_one_distributor_def bound_db_def d1_doc_def)
  have h2: "find_one_distributor (distributors bound_db) ''test-repo'' ''d1'' = Some d1_doc"
    by (simp add: find_one_distributor_def bound_db_def d1_doc_def)
  from get_distributor_never_reads_repos
         [where s = bound_db and rs = "[]" and repo_id = "''test-repo''" and distributor_id = "''nope''"]
       get_distributor_never_reads_repos
         [where s = bound_db and rs = "[]" and repo_id = "''test-repo''" and distributor_id = "''d1''"]
       h1 h2
  show ?thesis by metis
qed

text \<open>
  C9: every document returned by \<open>find_by_repo_list\<close>, for any list of repository
  ids, lacks the \<open>scratchpad\<close> key, also when the stored document has a scratchpad.
\<close>

theorem find_by_repo_list_drops_scratchpad:
  "\<forall>d \<in> set (find_by_repo_list s repo_id_list). doc_scratchpad d = None"
  by (simp add: find_by_repo_list_def)

theorem find_by_repo_list_drops_scratchpad_witness:
  "doc_scratchpad d1_doc = Some (PStr ''state'') \<and>
   find_by_repo_list bound_db [''test-repo'', ''no-such-repo''] = [d1_doc\<lparr>doc_scratchpad := None\<rparr>] \<and>
   map doc_scratchpad (find_by_repo_list bound_db [''test-repo'', ''no-such-repo'']) = [None]"
  using find_by_repo_list_drops_scratchpad
          [where s = bound_db and repo_id_list = "[''test-repo'', ''no-such-repo'']"]
  by (simp add: find_by_repo_list_def bound_db_def d1_doc_def)

section \<open>Removing a binding\<close>

text \<open>
  C5, as stated: removing a missing distributor from an existing repository fails with
  a \<open>MissingResource\<close> that identifies both the repository and the distributor. On
  the code the error carries the distributor alone: its resources have no
  \<open>repository\<close> entry.
\<close>

theorem remove_distributor_missing_binding_counterexample:
  "fst (remove_distributor (mock_env mock_distributor) bound_db ''test-repo'' ''foo'') =
     Inl (MissingResource [(''distributor'', ''foo'')]) \<and>
   map_of [(''distributor'', ''foo'')] ''repository'' = None"
  by (simp add: remove_distributor_def find_one_repo_def find_one_distributor_def
      bound_db_def d1_doc_def test_repo_def)

text \<open>
  C5, amended: when the repository does not exist, \<open>remove_distributor\<close> fails with
  \<open>MissingResource\<close> naming the repository and no distributor; when the repository
  exists and the distributor does not, it fails with \<open>MissingResource\<close> naming the
  distributor only. In both cases the state is unchanged: nothing is deleted.
\<close>

theorem remove_distributor_missing:
  "(find_one_repo (repos s) repo_id = None \<longrightarrow>
      remove_distributor E s repo_id distributor_id =
        (Inl (MissingResource [(''repository'', repo_id)]), s)) \<and>
   (find_one_repo (repos s) repo_id \<noteq> None \<and>
    find_one_distributor (distributors s) repo_id distributor_id = None \<longrightarrow>
      remove_distributor E s repo_id distributor_id =
        (Inl (MissingResource [(''distributor'', distributor_id)]), s))"
  by (auto simp: remove_distributor_def)

theorem remove_distributor_missing_witness:
  "find_one_repo (repos empty_db) ''bar'' = None \<and>
   remove_distributor (mock_env mock_distributor) empty_db ''bar'' ''foo'' =
     (Inl (MissingResource [(''repository'', ''bar'')]), empty_db) \<and>
   find_one_repo (repos bound_db) ''test-repo'' \<noteq> None \<and>
   find_one_distributor (distributors bound_db) ''test-repo'' ''foo'' = None \<and>
   remove_distributor (mock_env mock_distributor) bound_db ''test-repo'' ''foo'' =
     (Inl (MissingResource [(''distributor'', ''foo'')]), bound_db)"
proof -
  have h1: "find_one_repo (repos empty_db) ''bar'' = None"
    by (simp add: find_one_repo_def empty_db_def test_repo_def)
  have h2: "find_one_repo (repos bound_db) ''test-repo'' \<noteq> None"
    by (simp add: find_one_repo_def bound_db_def test_repo_def)
  have h3: "find_one_distributor (distributors bound_db) ''test-repo'' ''foo'' = None"
    by (simp add: find_one_distributor_def bound_db_def d1_doc_def)
  from remove_distributor_missing
         [where s = empty_db and repo_id = "''bar''" and E = "mock_env mock_distributor"
            and distributor_id = "''foo''"]
       remove_distributor_missing
         [where s = bound_db and repo_id = "''test-repo''" and E = "mock_env mock_distributor"
            and distributor_id = "''foo''"]
       h1 h2 h3
  show ?thesis by simp
qed

text \<open>
  Whatever \<open>remove_distributor\<close> does, it saves no document: every document in
  the collection afterwards was there before.
\<close>

lemma remove_distributor_saves_nothing:
  "set (distributors (snd (remove_distributor E s repo_id distributor_id))) \<subseteq> set (distributors s)"
  by (auto simp: remove_distributor_def delete_by_distributor_id_def remove_doc_def Let_def
      split: option.splits)

text \<open>
  When \<open>distributor_removed\<close> raises, the call ends with the plugin's exception, of
  the class it was raised with, and the state in which only the schedules of the
  binding have been deleted: the collection of distributors is as before.
\<close>

lemma remove_distributor_callback_raises:
  assumes "find_one_repo (repos s) repo_id = Some repo"
    and "find_one_distributor (distributors s) repo_id distributor_id = Some rd"
    and "get_distributor_by_id E (doc_distributor_type_id rd) = Some (inst, pc)"
    and "distributor_removed inst ((to_transfer_repo E repo)\<lparr>working_dir := Some (get_working_directory E)\<rparr>)
           \<lparr>call_plugin_config = pc, call_repo_plugin_config = doc_config rd\<rparr> = Some e"
  shows "remove_distributor E s repo_id distributor_id =
           (Inl (propagate e), delete_by_distributor_id s repo_id distributor_id)"
    and "distributors (delete_by_distributor_id s repo_id distributor_id) = distributors s"
proof -
  from assms(2) have "doc_id rd = distributor_id"
    by (auto simp: find_one_distributor_def find_Some_iff)
  with assms show "remove_distributor E s repo_id distributor_id =
           (Inl (propagate e), delete_by_distributor_id s repo_id distributor_id)"
    by (simp add: remove_distributor_def Let_def)
  show "distributors (delete_by_distributor_id s repo_id distributor_id) = distributors s"
    by (simp add: delete_by_distributor_id_def)
qed

text \<open>
  C6: when \<open>distributor_removed\<close> raises, the error reaches the caller as an
  execution error, the binding document stays in the store, and the schedules have
  already been deleted. Evaluated on the bound database with a plugin whose
  \<open>distributor_removed\<close> raises: the document stays and the schedules are gone, but
  the error is the plugin's own exception, not a \<open>PulpExecutionException\<close>.
\<close>

theorem remove_distributor_removed_raises_unwrapped:
  "remove_distributor (mock_env failing_removed) bound_db ''test-repo'' ''d1'' =
     (Inl (PluginException (Exception [PStr ''boom''])), bound_db\<lparr>schedules := []\<rparr>)"
  by (simp add: remove_distributor_def find_one_repo_def find_one_distributor_def
      bound_db_def d1_doc_def test_repo_def mock_env_def mock_distributor_def
      failing_removed_def delete_by_distributor_id_def propagate_def Let_def)

section \<open>Updating a configuration\<close>

text \<open>
  C4: \<open>update_distributor_config\<close> succeeds exactly when the binding exists with
  a stored configuration that is a dict, its plugin is registered, \<open>validate_config\<close>
  accepts the merged configuration and \<open>auto_publish\<close> is \<open>None\<close> or a bool. The
  merged configuration is the stored one with the delta applied key by key: a key the
  delta maps to \<open>None\<close> is absent, a key the delta maps to another value has that
  value, every other key keeps its stored value. It is the configuration that
  \<open>validate_config\<close> is called with and the one that is persisted, so a \<open>None\<close> of
  the delta reaches neither. The caller's delta comes back without the keys it mapped
  to \<open>None\<close>, and the updated document is the one found under the binding's key.
\<close>

theorem update_distributor_config_merges_delta:
  "(update_distributor_config E s repo_id distributor_id delta auto_publish = (Inr d, s', delta') \<longleftrightarrow>
      (\<exists>repo rd inst pc stored merged.
         find_one_repo (repos s) repo_id = Some repo \<and>
         find_one_distributor (distributors s) repo_id distributor_id = Some rd \<and>
         get_distributor_by_id E (doc_distributor_type_id rd) = Some (inst, pc) \<and>
         doc_config rd = Some stored \<and>
         (\<forall>k. merged k = (case delta k of None \<Rightarrow> stored k | Some PNone \<Rightarrow> None
                           | Some v \<Rightarrow> Some v)) \<and>
         (validate_config inst
            ((to_transfer_repo E repo)\<lparr>working_dir := Some (get_working_directory E)\<rparr>)
            \<lparr>call_plugin_config = pc, call_repo_plugin_config = Some merged\<rparr>
            (doc_distributor_type_id rd) = VBool True \<or>
          (\<exists>m. validate_config inst
            ((to_transfer_repo E repo)\<lparr>working_dir := Some (get_working_directory E)\<rparr>)
            \<lparr>call_plugin_config = pc, call_repo_plugin_config = Some merged\<rparr>
            (doc_distributor_type_id rd) = VTuple True m)) \<and>
         (auto_publish = PNone \<and> d = rd\<lparr>doc_config := Some merged\<rparr> \<or>
          (\<exists>b. auto_publish = PBool b) \<and>
            d = rd\<lparr>doc_auto_publish := auto_publish, doc_config := Some merged\<rparr>) \<and>
         s' = s\<lparr>distributors := save_doc (distributors s) d\<rparr> \<and>
         (\<forall>k. delta' k = (case delta k of Some PNone \<Rightarrow> None | v \<Rightarrow> v)))) \<and>
   (update_distributor_config E s repo_id distributor_id delta auto_publish = (Inr d, s', delta') \<longrightarrow>
      find_one_distributor (distributors s') repo_id distributor_id = Some d \<and>
      (\<forall>k. delta' k \<noteq> Some PNone) \<and>
      (\<forall>k. delta k = Some PNone \<longrightarrow> (\<forall>c. doc_config d = Some c \<longrightarrow> c k = None)))"
proof -
  let ?run = "update_distributor_config E s repo_id distributor_id delta auto_publish"
  let ?U = "{k. delta k = Some PNone}"
  let ?M = "(stored |` (- ?U)) ++ (delta |` (- ?U))"
  let ?R = "\<exists>repo rd inst pc stored merged.
         find_one_repo (repos s) repo_id = Some repo \<and>
         find_one_distributor (distributors s) repo_id distributor_id = Some rd \<and>
         get_distributor_by_id E (doc_distributor_type_id rd) = Some (inst, pc) \<and>
         doc_config rd = Some stored \<and>
         (\<forall>k. merged k = (case delta k of None \<Rightarrow> stored k | Some PNone \<Rightarrow> None
                           | Some v \<Rightarrow> Some v)) \<and>
         (validate_config inst
            ((to_transfer_repo E repo)\<lparr>working_dir := Some (get_working_directory E)\<rparr>)
            \<lparr>call_plugin_config = pc, call_repo_plugin_config = Some merged\<rparr>
            (doc_distributor_type_id rd) = VBool True \<or>
          (\<exists>m. validate_config inst
            ((to_transfer_repo E repo)\<lparr>working_dir := Some (get_working_directory E)\<rparr>)
            \<lparr>call_plugin_config = pc, call_repo_plugin_config = Some merged\<rparr>
            (doc_distributor_type_id rd) = VTuple True m)) \<and>
         (auto_publish = PNone \<and> d = rd\<lparr>doc_config := Some merged\<rparr> \<or>
          (\<exists>b. auto_publish = PBool b) \<and>
            d = rd\<lparr>doc_auto_publish := auto_publish, doc_config := Some merged\<rparr>) \<and>
         s' = s\<lparr>distributors := save_doc (distributors s) d\<rparr> \<and>
         (\<forall>k. delta' k = (case delta k of Some PNone \<Rightarrow> None | v \<Rightarrow> v))"
  let ?After = "find_one_distributor (distributors s') repo_id distributor_id = Some d \<and>
      (\<forall>k. delta' k \<noteq> Some PNone) \<and>
      (\<forall>k. delta k = Some PNone \<longrightarrow> (\<forall>c. doc_config d = Some c \<longrightarrow> c k = None))"
  have forward: "?R \<and> ?After" if run: "?run = (Inr d, s', delta')"
  proof -
    from run obtain repo where repo: "find_one_repo (repos s) repo_id = Some repo"
      by (auto simp: update_distributor_config_def split: option.splits)
    from run repo obtain rd where
      rd: "find_one_distributor (distributors s) repo_id distributor_id = Some rd"
      by (auto simp: update_distributor_config_def split: option.splits)
    from run repo rd obtain inst pc where
      pl: "get_distributor_by_id E (doc_distributor_type_id rd) = Some (inst, pc)"
      by (auto simp: update_distributor_config_def Let_def split: option.splits)
    from run repo rd pl obtain stored where st: "doc_config rd = Some stored"
      by (auto simp: update_distributor_config_def Let_def split: option.splits)
    define merged where "merged = (stored |` (- ?U)) ++ (delta |` (- ?U))"
    let ?v = "validate_config inst
            ((to_transfer_repo E repo)\<lparr>working_dir := Some (get_working_directory E)\<rparr>)
            \<lparr>call_plugin_config = pc, call_repo_plugin_config = Some merged\<rparr>
            (doc_distributor_type_id rd)"
    from run repo rd pl st have
      v: "?v = VBool True \<or> (\<exists>m. ?v = VTuple True m)"
      unfolding update_distributor_config_def Let_def merged_def
      by (auto split: sum.splits if_splits validate_result.splits)
    from run repo rd pl st v have
      d: "auto_publish = PNone \<and> d = rd\<lparr>doc_config := Some merged\<rparr> \<or>
          (\<exists>b. auto_publish = PBool b) \<and>
            d = rd\<lparr>doc_auto_publish := auto_publish, doc_config := Some merged\<rparr>"
      and s': "s' = s\<lparr>distributors := save_doc (distributors s) d\<rparr>"
      and delta': "delta' = delta |` (- ?U)"
      unfolding update_distributor_config_def Let_def merged_def
      by (auto split: sum.splits if_splits pyval.splits)
    have m: "\<forall>k. merged k = (case delta k of None \<Rightarrow> stored k | Some PNone \<Rightarrow> None
                              | Some v \<Rightarrow> Some v)"
      by (simp add: merged_pointwise merged_def)
    have dl: "\<forall>k. delta' k = (case delta k of Some PNone \<Rightarrow> None | v \<Rightarrow> v)"
      by (simp add: stripped_pointwise delta')
    have r: ?R
      by (rule exI [of _ repo], rule exI [of _ rd], rule exI [of _ inst], rule exI [of _ pc],
          rule exI [of _ stored], rule exI [of _ merged])
         (intro conjI repo rd pl st m v d s' dl)
    have key: "doc_repo_id rd = repo_id \<and> doc_id rd = distributor_id"
      using rd by (auto simp: find_one_distributor_def find_Some_iff)
    have dk: "doc_repo_id d = repo_id \<and> doc_id d = distributor_id" and od: "oid d = oid rd"
      using key d by auto
    have found: "find_one_distributor (distributors s') repo_id distributor_id = Some d"
      using rd dk od unfolding find_one_distributor_def s'
      by (simp add: find_save_doc)
    have dn: "\<forall>k. delta' k \<noteq> Some PNone"
      by (simp add: delta' restrict_map_def)
    have dc: "doc_config d = Some merged" using d by auto
    have gone: "\<forall>k. delta k = Some PNone \<longrightarrow> (\<forall>c. doc_config d = Some c \<longrightarrow> c k = None)"
      by (simp add: dc merged_def merged_apply)
    show ?thesis by (intro conjI r found dn gone)
  qed
  have backward: "?run = (Inr d, s', delta')" if r: ?R
    using r
  proof (elim exE conjE)
    fix repo rd inst pc stored merged
    assume repo: "find_one_repo (repos s) repo_id = Some repo"
      and rd: "find_one_distributor (distributors s) repo_id distributor_id = Some rd"
      and pl: "get_distributor_by_id E (doc_distributor_type_id rd) = Some (inst, pc)"
      and st: "doc_config rd = Some stored"
      and m: "\<forall>k. merged k = (case delta k of None \<Rightarrow> stored k | Some PNone \<Rightarrow> None
                                | Some v \<Rightarrow> Some v)"
      and v: "validate_config inst
            ((to_transfer_repo E repo)\<lparr>working_dir := Some (get_working_directory E)\<rparr>)
            \<lparr>call_plugin_config = pc, call_repo_plugin_config = Some merged\<rparr>
            (doc_distributor_type_id rd) = VBool True \<or>
          (\<exists>m. validate_config inst
            ((to_transfer_repo E repo)\<lparr>working_dir := Some (get_working_directory E)\<rparr>)
            \<lparr>call_plugin_config = pc, call_repo_plugin_config = Some merged\<rparr>
            (doc_distributor_type_id rd) = VTuple True m)"
      and d: "auto_publish = PNone \<and> d = rd\<lparr>doc_config := Some merged\<rparr> \<or>
          (\<exists>b. auto_publish = PBool b) \<and>
            d = rd\<lparr>doc_auto_publish := auto_publish, doc_config := Some merged\<rparr>"
      and s': "s' = s\<lparr>distributors := save_doc (distributors s) d\<rparr>"
      and dl: "\<forall>k. delta' k = (case delta k of Some PNone \<Rightarrow> None | v \<Rightarrow> v)"
    from m have me: "merged = (stored |` (- ?U)) ++ (delta |` (- ?U))"
      by (simp add: merged_pointwise)
    from dl have de: "delta' = delta |` (- ?U)"
      by (simp add: stripped_pointwise)
    from repo rd pl st v d show "?run = (Inr d, s', delta')"
      unfolding update_distributor_config_def Let_def s' de me
      by auto
  qed
  show ?thesis
  proof (rule conjI)
    show "?run = (Inr d, s', delta') \<longleftrightarrow> ?R"
    proof (rule iffI)
      assume "?run = (Inr d, s', delta')"
      from forward [OF this] show ?R by (rule conjunct1)
    next
      assume ?R
      then show "?run = (Inr d, s', delta')" by (rule backward)
    qed
    show "?run = (Inr d, s', delta') \<longrightarrow> ?After"
    proof (rule impI)
      assume "?run = (Inr d, s', delta')"
      from forward [OF this] show ?After by (rule conjunct2)
    qed
  qed
qed

theorem update_distributor_config_merges_delta_witness:
  "update_distributor_config (mock_env mock_distributor) bound_db ''test-repo'' ''d1''
     [''a'' \<mapsto> PStr ''A'', ''b'' \<mapsto> PNone, ''d'' \<mapsto> PStr ''D''] PNone =
     (Inr (d1_doc\<lparr>doc_config := Some [''a'' \<mapsto> PStr ''A'', ''c'' \<mapsto> PStr ''c'', ''d'' \<mapsto> PStr ''D'']\<rparr>),
      bound_db\<lparr>distributors := save_doc (distributors bound_db)
        (d1_doc\<lparr>doc_config := Some [''a'' \<mapsto> PStr ''A'', ''c'' \<mapsto> PStr ''c'', ''d'' \<mapsto> PStr ''D'']\<rparr>)\<rparr>,
      [''a'' \<mapsto> PStr ''A'', ''d'' \<mapsto> PStr ''D''])"
  apply (rule iffD2 [OF update_distributor_config_merges_delta [THEN conjunct1]])
  apply (rule exI [of _ test_repo], rule exI [of _ d1_doc], rule exI [of _ mock_distributor],
      rule exI [of _ Map.empty],
      rule exI [of _ "[''a'' \<mapsto> PStr ''a'', ''b'' \<mapsto> PStr ''b'', ''c'' \<mapsto> PStr ''c'']"],
      rule exI [of _ "[''a'' \<mapsto> PStr ''A'', ''c'' \<mapsto> PStr ''c'', ''d'' \<mapsto> PStr ''D'']"])
  by (simp add: find_one_repo_def find_one_distributor_def bound_db_def d1_doc_def
      test_repo_def mock_env_def mock_distributor_def)

text \<open>
  The stored configuration has to be a dict. A binding that \<open>add_distributor\<close> was
  given no configuration for is stored with \<open>config = None\<close>, and on it
  \<open>dict(repo_distributor['config'])\<close> raises \<open>TypeError\<close>: the update fails and
  changes nothing.
\<close>

lemma update_distributor_config_no_stored_config:
  assumes "find_one_repo (repos s) repo_id = Some repo"
    and "find_one_distributor (distributors s) repo_id distributor_id = Some rd"
    and "get_distributor_by_id E (doc_distributor_type_id rd) = Some (inst, pc)"
    and "doc_config rd = None"
  shows "update_distributor_config E s repo_id distributor_id delta auto_publish =
           (Inl TypeError, s, delta)"
  using assms by (simp add: update_distributor_config_def Let_def)

lemma update_after_add_without_config:
  "add_distributor (mock_env mock_distributor) empty_db ''test-repo'' ''mock-distributor''
     None (PBool False) (Some ''d0'') = (Inr d0_doc, unconfigured_db) \<and>
   update_distributor_config (mock_env mock_distributor) unconfigured_db ''test-repo'' ''d0''
     [''a'' \<mapsto> PStr ''A''] PNone = (Inl TypeError, unconfigured_db, [''a'' \<mapsto> PStr ''A''])"
  by (simp add: add_distributor_def remove_distributor_def update_distributor_config_def
      find_one_repo_def find_one_distributor_def empty_db_def unconfigured_db_def d0_doc_def
      test_repo_def mock_env_def mock_distributor_def is_distributor_id_valid_def
      is_distributor_id_char_def RepoDistributor_init_def save_doc_def Let_def)

section \<open>Validation\<close>

text \<open>
  C3: when \<open>validate_config\<close> returns \<open>False\<close> or \<open>(False, message)\<close>,
  \<open>add_distributor\<close> and \<open>update_distributor_config\<close> fail with a
  \<open>PulpDataException\<close> carrying the plugin's message (\<open>None\<close> for the bare
  \<open>False\<close>) and the database is unchanged; in \<open>add_distributor\<close> this happens
  before the old distributor is removed.
\<close>

theorem validate_config_rejection_changes_nothing:
  "(find_one_repo (repos s) repo_id = Some repo \<and>
    is_valid_distributor E distributor_type_id \<and>
    (distributor_id = None \<or> (\<exists>i. distributor_id = Some i \<and> is_distributor_id_valid i)) \<and>
    get_distributor_by_id E distributor_type_id = Some (inst, pc) \<and>
    call_config = \<lparr>call_plugin_config = pc,
                    call_repo_plugin_config = map_option clean_config repo_plugin_config\<rparr> \<and>
    (validate_config inst (to_transfer_repo E repo) call_config distributor_type_id =
       VTuple False message \<or>
     validate_config inst (to_transfer_repo E repo) call_config distributor_type_id =
       VBool False \<and> message = PNone)
    \<longrightarrow> add_distributor E s repo_id distributor_type_id repo_plugin_config auto_publish
          distributor_id = (Inl (PulpDataException message), s)) \<and>
   (find_one_repo (repos s) repo_id = Some repo \<and>
    find_one_distributor (distributors s) repo_id bound_id = Some rd \<and>
    get_distributor_by_id E (doc_distributor_type_id rd) = Some (inst', pc') \<and>
    doc_config rd = Some stored \<and>
    call_config' = \<lparr>call_plugin_config = pc',
                     call_repo_plugin_config =
                       Some ((stored |` (- {k. delta k = Some PNone})) ++
                             (delta |` (- {k. delta k = Some PNone})))\<rparr> \<and>
    (validate_config inst' ((to_transfer_repo E repo)\<lparr>working_dir := Some (get_working_directory E)\<rparr>)
       call_config' (doc_distributor_type_id rd) = VTuple False message' \<or>
     validate_config inst' ((to_transfer_repo E repo)\<lparr>working_dir := Some (get_working_directory E)\<rparr>)
       call_config' (doc_distributor_type_id rd) = VBool False \<and> message' = PNone)
    \<longrightarrow> fst (update_distributor_config E s repo_id bound_id delta auto_publish') =
          Inl (PulpDataException message') \<and>
        fst (snd (update_distributor_config E s repo_id bound_id delta auto_publish')) = s)"
proof (intro conjI impI)
  assume "find_one_repo (repos s) repo_id = Some repo \<and>
    is_valid_distributor E distributor_type_id \<and>
    (distributor_id = None \<or> (\<exists>i. distributor_id = Some i \<and> is_distributor_id_valid i)) \<and>
    get_distributor_by_id E distributor_type_id = Some (inst, pc) \<and>
    call_config = \<lparr>call_plugin_config = pc,
                    call_repo_plugin_config = map_option clean_config repo_plugin_config\<rparr> \<and>
    (validate_config inst (to_transfer_repo E repo) call_config distributor_type_id =
       VTuple False message \<or>
     validate_config inst (to_transfer_repo E repo) call_config distributor_type_id =
       VBool False \<and> message = PNone)"
  then show "add_distributor E s repo_id distributor_type_id repo_plugin_config auto_publish
          distributor_id = (Inl (PulpDataException message), s)"
    unfolding add_distributor_def Let_def by auto
next
  assume a: "find_one_repo (repos s) repo_id = Some repo \<and>
    find_one_distributor (distributors s) repo_id bound_id = Some rd \<and>
    get_distributor_by_id E (doc_distributor_type_id rd) = Some (inst', pc') \<and>
    doc_config rd = Some stored \<and>
    call_config' = \<lparr>call_plugin_config = pc',
                     call_repo_plugin_config =
                       Some ((stored |` (- {k. delta k = Some PNone})) ++
                             (delta |` (- {k. delta k = Some PNone})))\<rparr> \<and>
    (validate_config inst' ((to_transfer_repo E repo)\<lparr>working_dir := Some (get_working_directory E)\<rparr>)
       call_config' (doc_distributor_type_id rd) = VTuple False message' \<or>
     validate_config inst' ((to_transfer_repo E repo)\<lparr>working_dir := Some (get_working_directory E)\<rparr>)
       call_config' (doc_distributor_type_id rd) = VBool False \<and> message' = PNone)"
  then show "fst (update_distributor_config E s repo_id bound_id delta auto_publish') =
          Inl (PulpDataException message')"
    unfolding update_distributor_config_def Let_def by auto
  from a show "fst (snd (update_distributor_config E s repo_id bound_id delta auto_publish')) = s"
    unfolding update_distributor_config_def Let_def by auto
qed

theorem validate_config_rejection_changes_nothing_witness:
  "add_distributor (mock_env rejecting_validate) bound_db ''test-repo'' ''mock-distributor''
     (Some Map.empty) (PBool True) (Some ''d1'') =
     (Inl (PulpDataException (PStr ''foo'')), bound_db) \<and>
   fst (update_distributor_config (mock_env rejecting_validate) bound_db ''test-repo'' ''d1''
     [''a'' \<mapsto> PStr ''A''] PNone) = Inl (PulpDataException (PStr ''foo'')) \<and>
   fst (snd (update_distributor_config (mock_env rejecting_validate) bound_db ''test-repo'' ''d1''
     [''a'' \<mapsto> PStr ''A''] PNone)) = bound_db \<and>
   find_one_distributor (distributors bound_db) ''test-repo'' ''d1'' = Some d1_doc"
proof -
  let ?E = "mock_env rejecting_validate"
  let ?delta = "[''a'' \<mapsto> PStr ''A'']"
  let ?stored = "[''a'' \<mapsto> PStr ''a'', ''b'' \<mapsto> PStr ''b'', ''c'' \<mapsto> PStr ''c'']"
  have h1: "find_one_repo (repos bound_db) ''test-repo'' = Some test_repo"
    by (simp add: find_one_repo_def bound_db_def test_repo_def)
  have h2: "is_valid_distributor ?E ''mock-distributor''"
    by (simp add: mock_env_def)
  have h3: "is_distributor_id_valid ''d1''"
    by (simp add: is_distributor_id_valid_def is_distributor_id_char_def)
  have h4: "get_distributor_by_id ?E ''mock-distributor'' = Some (rejecting_validate, Map.empty)"
    by (simp add: mock_env_def)
  have h5: "validate_config rejecting_validate r c k = VTuple False (PStr ''foo'')" for r c k
    by (simp add: rejecting_validate_def)
  have h6: "find_one_distributor (distributors bound_db) ''test-repo'' ''d1'' = Some d1_doc"
    by (simp add: find_one_distributor_def bound_db_def d1_doc_def)
  have h7: "doc_distributor_type_id d1_doc = ''mock-distributor''" "doc_config d1_doc = Some ?stored"
    by (simp_all add: d1_doc_def)
  from validate_config_rejection_changes_nothing
         [where s = bound_db and repo_id = "''test-repo''" and repo = test_repo and E = ?E
            and distributor_type_id = "''mock-distributor''" and distributor_id = "Some ''d1''"
            and inst = rejecting_validate and pc = Map.empty
            and repo_plugin_config = "Some Map.empty"
            and call_config = "\<lparr>call_plugin_config = Map.empty,
                                 call_repo_plugin_config = map_option clean_config (Some Map.empty)\<rparr>"
            and message = "PStr ''foo''" and auto_publish = "PBool True"
            and bound_id = "''d1''" and rd = d1_doc and inst' = rejecting_validate
            and pc' = Map.empty and stored = ?stored and delta = ?delta
            and call_config' = "\<lparr>call_plugin_config = Map.empty,
                     call_repo_plugin_config =
                       Some ((?stored |` (- {k. ?delta k = Some PNone})) ++
                             (?delta |` (- {k. ?delta k = Some PNone})))\<rparr>"
            and message' = "PStr ''foo''" and auto_publish' = PNone]
       h1 h2 h3 h4 h5 h6 h7
  show ?thesis by simp
qed

text \<open>
  C7: when \<open>validate_config\<close> itself raises, \<open>add_distributor\<close> and
  \<open>update_distributor_config\<close> fail with a \<open>PulpDataException\<close> wrapping the
  failure, and nothing persisted changes. Evaluated with a plugin whose
  \<open>validate_config\<close> raises \<open>Exception('foo')\<close>: \<open>update_distributor_config\<close>
  wraps the failure, \<open>add_distributor\<close> lets the plugin's exception through as it
  is; the database is unchanged.
\<close>

theorem add_distributor_validate_raises_unwrapped:
  "add_distributor (mock_env failing_validate) empty_db ''test-repo'' ''mock-distributor''
     (Some Map.empty) (PBool False) (Some ''d1'') =
     (Inl (PluginException (Exception [PStr ''foo''])), empty_db) \<and>
   fst (update_distributor_config (mock_env failing_validate) bound_db ''test-repo'' ''d1''
     Map.empty PNone) = Inl (PulpDataException (PList [PStr ''foo'']))"
  by (simp add: add_distributor_def update_distributor_config_def find_one_repo_def
      find_one_distributor_def empty_db_def bound_db_def d1_doc_def test_repo_def mock_env_def
      mock_distributor_def failing_validate_def is_distributor_id_valid_def
      is_distributor_id_char_def propagate_def exn_args_def Let_def)

section \<open>Adding a binding\<close>

text \<open>
  C8: when \<open>add_distributor\<close> is given a configuration and succeeds, the persisted
  document's configuration is the given one without the keys mapped to \<open>None\<close>, so
  it maps no key to \<open>None\<close>; the document is in the collection; and the call with
  the cleaned configuration has the same outcome, so neither validation nor the store
  sees a stripped key.
\<close>

theorem add_distributor_strips_None:
  assumes "add_distributor E s repo_id distributor_type_id (Some cfg) auto_publish distributor_id =
             (Inr d, s')"
  shows "doc_config d = Some (clean_config cfg) \<and>
         (\<forall>k. clean_config cfg k = (case cfg k of Some PNone \<Rightarrow> None | v \<Rightarrow> v)) \<and>
         (\<forall>k. clean_config cfg k \<noteq> Some PNone) \<and>
         d \<in> set (distributors s') \<and>
         add_distributor E s repo_id distributor_type_id (Some (clean_config cfg)) auto_publish
           distributor_id = (Inr d, s')"
proof -
  have same: "add_distributor E s repo_id distributor_type_id (Some (clean_config cfg))
                auto_publish distributor_id =
              add_distributor E s repo_id distributor_type_id (Some cfg) auto_publish
                distributor_id"
    by (simp add: add_distributor_def clean_config_idem
        cong: option.case_cong if_cong prod.case_cong)
  have pt: "\<forall>k. clean_config cfg k = (case cfg k of Some PNone \<Rightarrow> None | v \<Rightarrow> v)"
    by (auto simp: clean_config_def restrict_map_def split: option.splits pyval.splits)
  from assms have cfg: "doc_config d = Some (clean_config cfg)"
    unfolding add_distributor_def Let_def
    by (auto simp: RepoDistributor_init_def
        split: option.splits if_splits sum.splits prod.splits validate_result.splits error.splits)
  from assms have mem: "d \<in> set (distributors s')"
    unfolding add_distributor_def Let_def
    by (auto simp: save_doc_member
        split: option.splits if_splits sum.splits prod.splits validate_result.splits error.splits)
  have nn: "\<forall>k. clean_config cfg k \<noteq> Some PNone"
    by (simp add: clean_config_no_None)
  from same assms have cleaned: "add_distributor E s repo_id distributor_type_id
      (Some (clean_config cfg)) auto_publish distributor_id = (Inr d, s')"
    by simp
  show ?thesis by (intro conjI cfg pt nn mem cleaned)
qed

theorem add_distributor_strips_None_witness:
  "\<exists>d s'. add_distributor (mock_env mock_distributor) empty_db ''test-repo'' ''mock-distributor''
            (Some [''a'' \<mapsto> PStr ''a'', ''b'' \<mapsto> PNone]) (PBool False) (Some ''d1'') = (Inr d, s') \<and>
          doc_config d = Some [''a'' \<mapsto> PStr ''a''] \<and>
          d \<in> set (distributors s')"
proof -
  let ?cfg = "[''a'' \<mapsto> PStr ''a'', ''b'' \<mapsto> PNone]"
  have "\<exists>d s'. add_distributor (mock_env mock_distributor) empty_db ''test-repo''
                  ''mock-distributor'' (Some ?cfg) (PBool False) (Some ''d1'') = (Inr d, s')"
    by (simp add: add_distributor_def remove_distributor_def find_one_repo_def
        find_one_distributor_def empty_db_def test_repo_def mock_env_def mock_distributor_def
        is_distributor_id_valid_def is_distributor_id_char_def Let_def)
  then obtain d s' where
    run: "add_distributor (mock_env mock_distributor) empty_db ''test-repo''
            ''mock-distributor'' (Some ?cfg) (PBool False) (Some ''d1'') = (Inr d, s')"
    by blast
  from add_distributor_strips_None [OF run] have
    dc: "doc_config d = Some (clean_config ?cfg)"
    and pt: "\<forall>k. clean_config ?cfg k = (case ?cfg k of Some PNone \<Rightarrow> None | v \<Rightarrow> v)"
    and mem: "d \<in> set (distributors s')"
    by blast+
  have "clean_config ?cfg = [''a'' \<mapsto> PStr ''a'']"
    by (rule ext) (simp add: pt)
  with dc mem run show ?thesis by simp
qed

text \<open>
  C1, as stated: when \<open>distributor_added\<close> raises, the new binding document is
  still persisted. On the code the call fails with \<open>PulpExecutionException\<close> and
  no document is found under the binding's key afterwards.
\<close>

theorem add_distributor_added_raises_counterexample:
  "fst (add_distributor (mock_env failing_added) empty_db ''test-repo'' ''mock-distributor''
          None (PBool False) (Some ''d1'')) = Inl PulpExecutionException \<and>
   find_one_distributor
     (distributors (snd (add_distributor (mock_env failing_added) empty_db ''test-repo''
          ''mock-distributor'' None (PBool False) (Some ''d1''))))
     ''test-repo'' ''d1'' = None"
  by (simp add: add_distributor_def remove_distributor_def find_one_repo_def
      find_one_distributor_def empty_db_def test_repo_def mock_env_def mock_distributor_def
      failing_added_def is_distributor_id_valid_def is_distributor_id_char_def Let_def)

text \<open>
  C1, amended: when \<open>add_distributor\<close> reaches \<open>distributor_added\<close> and the
  callback raises, the call fails with \<open>PulpExecutionException\<close> and the new
  document is not saved: the state is the one the replace step left, and every
  document it holds was there before the call.
\<close>

theorem add_distributor_added_raises_nothing_saved:
  assumes "find_one_repo (repos s) repo_id = Some repo"
    and "is_valid_distributor E distributor_type_id"
    and "distributor_id = None \<and> new_id = uuid4 E \<or>
         distributor_id = Some new_id \<and> is_distributor_id_valid new_id"
    and "get_distributor_by_id E distributor_type_id = Some (inst, pc)"
    and "call_config = \<lparr>call_plugin_config = pc,
           call_repo_plugin_config = map_option clean_config repo_plugin_config\<rparr>"
    and "validate_config inst (to_transfer_repo E repo) call_config distributor_type_id = VBool True \<or>
         (\<exists>m. validate_config inst (to_transfer_repo E repo) call_config distributor_type_id = VTuple True m)"
    and "remove_distributor E s repo_id new_id = (r, s1)"
    and "r = Inr () \<or> (\<exists>res. r = Inl (MissingResource res))"
    and "distributor_added inst (to_transfer_repo E repo) call_config = Some e"
  shows "add_distributor E s repo_id distributor_type_id repo_plugin_config auto_publish distributor_id =
           (Inl PulpExecutionException, s1) \<and>
         set (distributors s1) \<subseteq> set (distributors s)"
proof -
  have run: "add_distributor E s repo_id distributor_type_id repo_plugin_config auto_publish
               distributor_id = (Inl PulpExecutionException, s1)"
    using assms(1-9) unfolding add_distributor_def Let_def
    by (auto split: option.splits)
  from remove_distributor_saves_nothing [of E s repo_id new_id] assms(7)
  have "set (distributors s1) \<subseteq> set (distributors s)" by simp
  with run show ?thesis by simp
qed

theorem add_distributor_added_raises_nothing_saved_witness:
  "add_distributor (mock_env failing_added) bound_db ''test-repo'' ''mock-distributor''
     (Some Map.empty) (PBool False) (Some ''d1'') =
     (Inl PulpExecutionException, bound_db\<lparr>schedules := [], distributors := []\<rparr>) \<and>
   set (distributors (bound_db\<lparr>schedules := [], distributors := []\<rparr>)) \<subseteq> set (distributors bound_db)"
proof -
  let ?E = "mock_env failing_added"
  let ?cc = "\<lparr>call_plugin_config = Map.empty,
               call_repo_plugin_config = map_option clean_config (Some Map.empty)\<rparr>"
  let ?s1 = "bound_db\<lparr>schedules := [], distributors := []\<rparr>"
  have h1: "find_one_repo (repos bound_db) ''test-repo'' = Some test_repo"
    by (simp add: find_one_repo_def bound_db_def test_repo_def)
  have h2: "is_valid_distributor ?E ''mock-distributor''"
    by (simp add: mock_env_def)
  have h3: "Some ''d1'' = None \<and> ''d1'' = uuid4 ?E \<or>
            Some ''d1'' = Some ''d1'' \<and> is_distributor_id_valid ''d1''"
    by (simp add: is_distributor_id_valid_def is_distributor_id_char_def)
  have h4: "get_distributor_by_id ?E ''mock-distributor'' = Some (failing_added, Map.empty)"
    by (simp add: mock_env_def)
  have h6: "validate_config failing_added (to_transfer_repo ?E test_repo) ?cc ''mock-distributor'' = VBool True \<or>
      (\<exists>m. validate_config failing_added (to_transfer_repo ?E test_repo) ?cc ''mock-distributor'' = VTuple True m)"
    by (simp add: failing_added_def mock_distributor_def)
  have h7: "remove_distributor ?E bound_db ''test-repo'' ''d1'' = (Inr (), ?s1)"
    by (simp add: remove_distributor_def find_one_repo_def find_one_distributor_def
        bound_db_def test_repo_def d1_doc_def mock_env_def failing_added_def
        mock_distributor_def delete_by_distributor_id_def remove_doc_def Let_def)
  have h8: "Inr () = Inr () \<or> (\<exists>res. (Inr () :: error + unit) = Inl (MissingResource res))"
    by simp
  have h9: "distributor_added failing_added (to_transfer_repo ?E test_repo) ?cc = Some (Exception [])"
    by (simp add: failing_added_def)
  from add_distributor_added_raises_nothing_saved
         [OF h1 h2 h3 h4 refl h6 h7 h8 h9, where auto_publish = "PBool False"]
  show ?thesis by simp
qed

text \<open>
  The replace step can leave the old document in place: a \<open>MissingResource\<close> that
  the old plugin's \<open>distributor_removed\<close> raises is caught by the
  \<open>except MissingResource\<close> of \<open>add_distributor\<close> like the one of a missing
  distributor, and it is raised before the document is removed.
\<close>

lemma add_distributor_swallows_plugin_MissingResource:
  "add_distributor (mock_env failing_removed_and_added) bound_db ''test-repo'' ''mock-distributor''
     None (PBool False) (Some ''d1'') =
     (Inl PulpExecutionException, bound_db\<lparr>schedules := []\<rparr>) \<and>
   find_one_distributor (distributors (bound_db\<lparr>schedules := []\<rparr>)) ''test-repo'' ''d1'' =
     Some d1_doc"
  by (simp add: add_distributor_def remove_distributor_def propagate_def find_one_repo_def
      find_one_distributor_def bound_db_def test_repo_def d1_doc_def mock_env_def
      failing_removed_and_added_def mock_distributor_def delete_by_distributor_id_def
      is_distributor_id_valid_def is_distributor_id_char_def Let_def)

section \<open>Heartbeats\<close>

lemma find_and_modify_recorded:
  "\<exists>w \<in> set ws. Worker_name w = n \<Longrightarrow> recorded_heartbeat (find_and_modify ws n t) n = Some t"
  by (induction ws) (auto simp: recorded_heartbeat_def)

lemma handle_worker_heartbeat_recorded:
  "recorded_heartbeat (handle_worker_heartbeat ws ev) (hostname ev) = Some (event_timestamp ev)"
proof (cases "filter (\<lambda>w. Worker_name w = hostname ev) ws = []")
  case True
  then have "find (\<lambda>w. Worker_name w = hostname ev) ws = None"
    by (auto simp: find_None_iff filter_empty_conv)
  with True show ?thesis
    by (simp add: handle_worker_heartbeat_def recorded_heartbeat_def find_append_unmatched)
next
  case False
  then have "\<exists>w \<in> set ws. Worker_name w = hostname ev"
    by (auto simp: filter_empty_conv)
  with False show ?thesis
    by (simp add: handle_worker_heartbeat_def find_and_modify_recorded)
qed

text \<open>
  C2, as stated: two heartbeats of one worker with timestamps \<open>t1 < t2\<close> leave
  \<open>last_heartbeat = t2\<close> in either order. Processing the later one first and the
  earlier one second leaves the earlier timestamp on record.
\<close>

theorem heartbeat_later_overwritten_counterexample:
  "(1::int) < 2 \<and>
   recorded_heartbeat
     (handle_worker_heartbeat
        (handle_worker_heartbeat [] \<lparr>event_timestamp = 2, event_type = ''worker-heartbeat'', hostname = ''W''\<rparr>)
        \<lparr>event_timestamp = 1, event_type = ''worker-heartbeat'', hostname = ''W''\<rparr>) ''W'' = Some 1"
  by (simp add: handle_worker_heartbeat_def recorded_heartbeat_def)

text \<open>
  C2, amended: after two heartbeats of one worker, the record holds the timestamp of
  the event processed last: \<open>t1\<close> then \<open>t2\<close> leaves \<open>t2\<close>, and \<open>t2\<close> then
  \<open>t1\<close> leaves \<open>t1\<close>.
\<close>

theorem heartbeat_last_processed_wins:
  "recorded_heartbeat
     (handle_worker_heartbeat
        (handle_worker_heartbeat ws \<lparr>event_timestamp = t1, event_type = k1, hostname = W\<rparr>)
        \<lparr>event_timestamp = t2, event_type = k2, hostname = W\<rparr>) W = Some t2 \<and>
   recorded_heartbeat
     (handle_worker_heartbeat
        (handle_worker_heartbeat ws \<lparr>event_timestamp = t2, event_type = k2, hostname = W\<rparr>)
        \<lparr>event_timestamp = t1, event_type = k1, hostname = W\<rparr>) W = Some t1"
  using handle_worker_heartbeat_recorded
          [of "handle_worker_heartbeat ws \<lparr>event_timestamp = t1, event_type = k1, hostname = W\<rparr>"
              "\<lparr>event_timestamp = t2, event_type = k2, hostname = W\<rparr>"]
        handle_worker_heartbeat_recorded
          [of "handle_worker_heartbeat ws \<lparr>event_timestamp = t2, event_type = k2, hostname = W\<rparr>"
              "\<lparr>event_timestamp = t1, event_type = k1, hostname = W\<rparr>"]
  by simp

theorem heartbeat_last_processed_wins_witness:
  "recorded_heartbeat
     (handle_worker_heartbeat
        (handle_worker_heartbeat [] \<lparr>event_timestamp = 1, event_type = ''worker-heartbeat'', hostname = ''W''\<rparr>)
        \<lparr>event_timestamp = 2, event_type = ''worker-heartbeat'', hostname = ''W''\<rparr>) ''W'' = Some 2"
  using heartbeat_last_processed_wins
          [where ws = "[]" and ?t1.0 = 1 and ?t2.0 = 2 and ?k1.0 = "''worker-heartbeat''"
             and ?k2.0 = "''worker-heartbeat''" and W = "''W''"]
  by simp

end
